theory Spec2Isabelle
  imports Main "HOL-Library.Sublist" "HOL-Library.Char_ord" "HOL-Library.List_Lexorder"
    "HOL-Library.Multiset"
begin

section \<open>Strings\<close>

text \<open>
  Python strings are modelled as \<open>string\<close> (a list of 8-bit characters).  \<open>str.lower()\<close>
  is modelled on the ASCII letters; every other character is left as it is.  The Python
  test \<open>t in s\<close> on two strings is the contiguous-sublist relation \<open>sublist t s\<close>.
\<close>

definition lower_char :: "char \<Rightarrow> char" where
  "lower_char c =
     (case map_of (zip ''ABCDEFGHIJKLMNOPQRSTUVWXYZ'' ''abcdefghijklmnopqrstuvwxyz'') c of
        Some l \<Rightarrow> l
      | None \<Rightarrow> c)"

definition lower :: "string \<Rightarrow> string" where
  "lower s = map lower_char s"

text \<open>Truthiness of an \<open>Optional[str]\<close>: \<open>None\<close> and the empty string are falsy.\<close>

fun truthy :: "string option \<Rightarrow> bool" where
  "truthy None = False"
| "truthy (Some s) = (s \<noteq> [])"

text \<open>How an f-string renders an \<open>Optional[str]\<close>.\<close>

fun fmt_opt :: "string option \<Rightarrow> string" where
  "fmt_opt None = ''None''"
| "fmt_opt (Some s) = s"

section \<open>The option list inside a column\<close>

text \<open>
  The part of the toolkit's option-list widget that \<open>BrowserColumn\<close> relies on: the rows
  shown, the \<open>disabled\<close> flag and the highlighted index.  Clearing the rows also drops the
  highlight.
\<close>

record option_list =
  options :: "string list"
  disabled :: bool
  highlighted :: "nat option"

definition clear_options :: "option_list \<Rightarrow> option_list" where
  "clear_options ol = ol\<lparr>options := [], highlighted := None\<rparr>"

definition add_option :: "string \<Rightarrow> option_list \<Rightarrow> option_list" where
  "add_option p ol = ol\<lparr>options := options ol @ [p]\<rparr>"

text \<open>\<open>for item in self.filtered_items: self._option_list.add_option(item)\<close>\<close>

fun add_each :: "string list \<Rightarrow> option_list \<Rightarrow> option_list" where
  "add_each [] ol = ol"
| "add_each (item # rest) ol = add_each rest (add_option item ol)"

section \<open>BrowserColumn (widgets/column.py)\<close>

text \<open>
  A \<open>Selected\<close> message carries the posting column (here: its widget id) and the item.
\<close>

datatype selected = Selected (sel_column: string) (sel_item: string)

text \<open>
  The fields of \<open>BrowserColumn\<close>.  Title markup and column width are presentation only and
  are left out; \<open>option_list\<close> is the child \<open>HighlightedOptionList\<close>.
\<close>

record browser_column =
  col_id :: string
  items :: "string list"
  search_active :: bool
  filtered_items :: "string list"
  is_filtered :: bool
  filter_term :: string
  is_loading :: bool
  col_options :: option_list

definition new_column :: "string \<Rightarrow> browser_column" where
  "new_column i =
     \<lparr>col_id = i, items = [], search_active = False, filtered_items = [],
      is_filtered = False, filter_term = [], is_loading = False,
      col_options = \<lparr>options = [], disabled = False, highlighted = None\<rparr>\<rparr>"

definition set_loading :: "bool \<Rightarrow> browser_column \<Rightarrow> browser_column" where
  "set_loading loading c =
     (let ol = clear_options (col_options c)
      in c\<lparr>is_loading := loading,
            col_options :=
              (if loading then (add_option ''Loading data...'' ol)\<lparr>disabled := True\<rparr>
               else ol\<lparr>disabled := False\<rparr>)\<rparr>)"

text \<open>
  The list comprehension \<open>[item for item in items if term in item.lower()]\<close>.
\<close>

definition matching :: "string \<Rightarrow> string list \<Rightarrow> string list" where
  "matching term its = filter (\<lambda>item. sublist term (lower item)) its"

text \<open>
  \<open>set_items\<close> returns the updated column and whether it handed \<open>post_selection\<close> to
  \<open>call_later\<close>.
\<close>

definition set_items :: "string list \<Rightarrow> browser_column \<Rightarrow> browser_column \<times> bool" where
  "set_items its c =
     (let fi = (if is_filtered c \<and> filter_term c \<noteq> [] then matching (filter_term c) its
                else its);
          ol0 = (clear_options (col_options c))\<lparr>disabled := False\<rparr>;
          ol1 = (if length fi = 0 then (add_option ''No items'' ol0)\<lparr>disabled := True\<rparr>
                 else add_each fi ol0);
          sched = (length its > 0 \<and> length fi > 0 \<and> \<not> disabled ol1);
          ol2 = (if sched then ol1\<lparr>highlighted := Some 0\<rparr> else ol1)
      in (c\<lparr>items := its, is_loading := False, filtered_items := fi, col_options := ol2\<rparr>,
          sched))"

text \<open>
  The deferred callback of \<open>set_items\<close>, run against the column as it is when the callback
  fires: the message it posts, if any.
\<close>

definition post_selection :: "browser_column \<Rightarrow> selected option" where
  "post_selection c =
     (if length (filtered_items c) > 0 \<and> \<not> disabled (col_options c)
         \<and> highlighted (col_options c) \<noteq> None
      then (case filtered_items c of
              first # _ \<Rightarrow> Some (Selected (col_id c) first)
            | [] \<Rightarrow> None)
      else None)"

definition update_list :: "browser_column \<Rightarrow> browser_column" where
  "update_list c =
     (let ol0 = clear_options (col_options c)
      in c\<lparr>col_options :=
            (if length (filtered_items c) = 0
             then (add_option ''No items'' ol0)\<lparr>disabled := True\<rparr>
             else (add_each (filtered_items c) (ol0\<lparr>disabled := False\<rparr>))
                    \<lparr>highlighted := Some 0\<rparr>)\<rparr>)"

definition action_toggle_search :: "browser_column \<Rightarrow> browser_column" where
  "action_toggle_search c =
     (if search_active c
      then update_list (c\<lparr>search_active := False, filtered_items := items c,
                           is_filtered := False\<rparr>)
      else c\<lparr>search_active := True\<rparr>)"

text \<open>
  \<open>on_input_submitted\<close>: \<open>own\<close> says whether the event comes from this column's search
  input, \<open>v\<close> is the submitted text.
\<close>

definition on_input_submitted :: "bool \<Rightarrow> string \<Rightarrow> browser_column \<Rightarrow> browser_column" where
  "on_input_submitted own v c =
     (if own then
        (let search_term = lower v;
             c1 = c\<lparr>filter_term := search_term\<rparr>
         in update_list
              (if search_term \<noteq> []
               then c1\<lparr>filtered_items := matching search_term (items c1),
                        is_filtered := True\<rparr>
               else c1\<lparr>filtered_items := items c1, is_filtered := False,
                        filter_term := []\<rparr>))
      else c)"

definition on_key :: "string \<Rightarrow> browser_column \<Rightarrow> browser_column" where
  "on_key k c =
     (if search_active c \<and> k = ''escape''
      then update_list (c\<lparr>search_active := False, filtered_items := items c,
                           is_filtered := False, filter_term := []\<rparr>)
      else c)"

definition placeholder :: "string \<Rightarrow> bool" where
  "placeholder p = (p = ''Loading data...'' \<or> p = ''No items'')"

text \<open>
  The two option-list event handlers; the result is the \<open>Selected\<close> message posted, if
  any.  For the highlight handler, \<open>None\<close> as the prompt stands for an event whose
  \<open>event.option.prompt\<close> cannot be read (the \<open>except (AttributeError, IndexError)\<close> branch).
\<close>

definition on_option_list_option_selected :: "string \<Rightarrow> browser_column \<Rightarrow> selected option" where
  "on_option_list_option_selected selected_item c =
     (if placeholder selected_item then None
      else Some (Selected (col_id c) selected_item))"

definition on_option_list_option_highlighted ::
  "string option \<Rightarrow> browser_column \<Rightarrow> selected option" where
  "on_option_list_option_highlighted prompt c =
     (if disabled (col_options c) then None
      else (case prompt of
              Some selected_item \<Rightarrow>
                (if placeholder selected_item then None
                 else Some (Selected (col_id c) selected_item))
            | None \<Rightarrow>
                (case highlighted (col_options c) of
                   Some idx \<Rightarrow>
                     (if idx < length (filtered_items c)
                      then Some (Selected (col_id c) (filtered_items c ! idx))
                      else None)
                 | None \<Rightarrow> None)))"

text \<open>Sequences of \<open>set_items\<close> calls and filter operations on one column.\<close>

datatype col_op =
    SetItems "string list"
  | InputSubmitted bool string
  | ToggleSearch
  | Key string

fun apply_op :: "browser_column \<Rightarrow> col_op \<Rightarrow> browser_column" where
  "apply_op c (SetItems its) = fst (set_items its c)"
| "apply_op c (InputSubmitted own v) = on_input_submitted own v c"
| "apply_op c ToggleSearch = action_toggle_search c"
| "apply_op c (Key k) = on_key k c"

definition run_ops :: "col_op list \<Rightarrow> browser_column \<Rightarrow> browser_column" where
  "run_ops ops c = foldl apply_op c ops"

definition filter_active :: "browser_column \<Rightarrow> bool" where
  "filter_active c = (is_filtered c \<and> filter_term c \<noteq> [])"

text \<open>
  What the panel should show: the items of \<open>items\<close>, in order, that contain the filter
  term when both are compared in lower case; all of them when no filter is active.
\<close>

definition visible_spec :: "browser_column \<Rightarrow> string list" where
  "visible_spec c =
     (if filter_active c
      then filter (\<lambda>item. sublist (lower (filter_term c)) (lower item)) (items c)
      else items c)"

definition cursor_ok :: "browser_column \<Rightarrow> bool" where
  "cursor_ok c =
     (case highlighted (col_options c) of
        None \<Rightarrow> filtered_items c = []
      | Some i \<Rightarrow> i < length (filtered_items c))"

definition col_inv :: "browser_column \<Rightarrow> bool" where
  "col_inv c =
     (filtered_items c = visible_spec c
      \<and> lower (filter_term c) = filter_term c
      \<and> is_filtered c = filter_active c
      \<and> highlighted (col_options c) = (if filtered_items c = [] then None else Some 0))"

section \<open>DetailsPanel (widgets/details_panel.py)\<close>

text \<open>
  The stored body (\<open>original_content\<close>), the filtered body, the filter term, and the texts
  currently shown by the title and content widgets.  Scrolling is left out.
\<close>

record details_widget =
  details_search_active :: bool
  original_content :: string
  filtered_content :: string
  details_filter_term :: string
  title_text :: string
  content_text :: string

definition new_details :: details_widget where
  "new_details =
     \<lparr>details_search_active = False, original_content = [], filtered_content = [],
      details_filter_term = [], title_text = ''Describe'',
      content_text = ''Select an object to view details...''\<rparr>"

definition update_title :: "bool \<Rightarrow> details_widget \<Rightarrow> details_widget" where
  "update_title is_pod d =
     d\<lparr>title_text := (if is_pod then ''Describe (d) Logs (g) Exec (e)'' else ''Describe'')\<rparr>"

text \<open>\<open>str.split('\n')\<close> and \<open>'\n'.join(...)\<close>.\<close>

fun split_lines :: "string \<Rightarrow> string list" where
  "split_lines [] = [[]]"
| "split_lines (c # cs) =
     (if c = CHR 0x0A then [] # split_lines cs
      else (case split_lines cs of
              l # ls \<Rightarrow> (c # l) # ls
            | [] \<Rightarrow> [[c]]))"

fun join_lines :: "string list \<Rightarrow> string" where
  "join_lines [] = []"
| "join_lines [l] = l"
| "join_lines (l # ls) = l @ CHR 0x0A # join_lines ls"

definition apply_filter :: "string \<Rightarrow> details_widget \<Rightarrow> details_widget" where
  "apply_filter search_term d =
     (if original_content d = [] then d
      else
        (let d1 = d\<lparr>details_filter_term := lower search_term\<rparr>;
             lines = split_lines (original_content d1);
             d2 = (if search_term \<noteq> []
                   then d1\<lparr>filtered_content :=
                             join_lines
                               (filter (\<lambda>line. sublist (lower search_term) (lower line)) lines)\<rparr>
                   else d1\<lparr>filtered_content := original_content d1\<rparr>)
         in d2\<lparr>content_text := filtered_content d2\<rparr>))"

definition update_content :: "string \<Rightarrow> details_widget \<Rightarrow> details_widget" where
  "update_content content d =
     (let d1 = d\<lparr>original_content := content, filtered_content := content\<rparr>
      in if details_search_active d1 \<and> details_filter_term d1 \<noteq> []
         then apply_filter (details_filter_term d1) d1
         else d1\<lparr>content_text := content\<rparr>)"

section \<open>KTreeApp (app.py)\<close>

text \<open>
  Work handed to a background worker.  Each worker is named after what its completion
  callback receives: the values captured when the worker was created.  \<open>CallLater i\<close> is
  the \<open>post_selection\<close> callback that column \<open>i\<close> handed to \<open>call_later\<close>.
\<close>

datatype worker =
    LoadObjectTypes string
  | LoadObjectsForType string string
  | LoadObjects string
  | LoadDetails string string
  | RefreshObjects
  | RefreshObjectTypes
  | RefreshNamespaces

datatype effect = RunWorker worker | CallLater string

datatype k8s_error = K8sManagerError

text \<open>
  The application after \<open>compose\<close>: the three columns and the details panel exist.  \<open>k8s\<close>
  says whether \<open>self.k8s\<close> is set.  Focus, help overlay and exec commands are left out.
\<close>

record ktree_app =
  k8s :: bool
  initial_namespace :: "string option"
  initial_type :: "string option"
  current_context :: "string option"
  current_namespace :: "string option"
  current_object_type :: "string option"
  current_view :: string
  describe_content :: "string option"
  current_pod_name :: "string option"
  col_ns :: browser_column
  col_types :: browser_column
  col_objects :: browser_column
  details_panel :: details_widget
  header :: string

definition new_app :: "string option \<Rightarrow> string option \<Rightarrow> ktree_app" where
  "new_app ns ty =
     \<lparr>k8s = False, initial_namespace = ns, initial_type = ty, current_context = None,
      current_namespace = None, current_object_type = None, current_view = ''describe'',
      describe_content = None, current_pod_name = None,
      col_ns = new_column ''col-ns'', col_types = new_column ''col-types'',
      col_objects = new_column ''col-objects'', details_panel = new_details, header = []\<rparr>"

text \<open>Python's \<open>x or d\<close> on an optional string.\<close>

definition or_else :: "string option \<Rightarrow> string \<Rightarrow> string" where
  "or_else x d = (if truthy x then fmt_opt x else d)"

definition update_header :: "ktree_app \<Rightarrow> ktree_app" where
  "update_header s =
     s\<lparr>header := ''Context: '' @ or_else (current_context s) ''Unknown''
                 @ '' | Namespace: '' @ or_else (current_namespace s) ''All Namespaces''\<rparr>"

definition deferred :: "browser_column \<times> bool \<Rightarrow> effect list" where
  "deferred r = (if snd r then [CallLater (col_id (fst r))] else [])"

text \<open>\<open>list.index(x)\<close>, used only where \<open>x\<close> is in the list.\<close>

fun index_of :: "string \<Rightarrow> string list \<Rightarrow> nat" where
  "index_of x [] = 0"
| "index_of x (y # ys) = (if x = y then 0 else Suc (index_of x ys))"

text \<open>Assigning \<open>option_list.highlighted = idx\<close>; the widget keeps the index inside its rows.\<close>

definition set_highlighted :: "nat \<Rightarrow> option_list \<Rightarrow> option_list" where
  "set_highlighted idx ol =
     ol\<lparr>highlighted := (if options ol = [] then None
                         else Some (min idx (length (options ol) - 1)))\<rparr>"

definition load_objects_for_type ::
  "string \<Rightarrow> string \<Rightarrow> ktree_app \<Rightarrow> ktree_app \<times> effect list" where
  "load_objects_for_type namespace object_type s =
     (if \<not> k8s s then (s, [])
      else (s\<lparr>col_objects := set_loading True (col_objects s)\<rparr>,
            [RunWorker (LoadObjectsForType namespace object_type)]))"

definition on_object_types_loaded ::
  "string \<Rightarrow> string list \<Rightarrow> ktree_app \<Rightarrow> ktree_app \<times> effect list" where
  "on_object_types_loaded namespace object_types s =
     (let r = set_items object_types (col_types s);
          s1 = s\<lparr>col_types := fst r\<rparr>
      in if truthy (initial_type s1) \<and> fmt_opt (initial_type s1) \<in> set object_types
         then
           (let type_idx = index_of (fmt_opt (initial_type s1)) object_types;
                s2 = s1\<lparr>col_types :=
                          (col_types s1)\<lparr>col_options :=
                             set_highlighted type_idx (col_options (col_types s1))\<rparr>,
                        current_object_type := initial_type s1\<rparr>;
                l = load_objects_for_type namespace (fmt_opt (initial_type s1)) s2
            in (fst l, deferred r @ snd l))
         else (s1, deferred r))"

definition on_objects_loaded ::
  "string \<Rightarrow> string \<Rightarrow> string list \<Rightarrow> ktree_app \<Rightarrow> ktree_app \<times> effect list" where
  "on_objects_loaded namespace object_type objects s =
     (let r = set_items objects (col_objects s)
      in (s\<lparr>col_objects := fst r\<rparr>, deferred r))"

definition on_objects_loaded_from_selection ::
  "string \<Rightarrow> string list \<Rightarrow> ktree_app \<Rightarrow> ktree_app \<times> effect list" where
  "on_objects_loaded_from_selection object_type objects s =
     (if objects \<noteq> [] then
        (let r = set_items objects (col_objects s)
         in (s\<lparr>col_objects := fst r\<rparr>, deferred r))
      else
        (let r = set_items [] (col_objects s)
         in (s\<lparr>col_objects := fst r,
               details_panel :=
                 update_content
                   (''No '' @ object_type @ '' found in namespace: ''
                      @ fmt_opt (current_namespace s))
                   (details_panel s)\<rparr>,
             deferred r)))"

definition on_objects_error_from_selection ::
  "string \<Rightarrow> ktree_app \<Rightarrow> ktree_app \<times> effect list" where
  "on_objects_error_from_selection object_type s =
     (let r = set_items [] (col_objects s)
      in (s\<lparr>col_objects := fst r,
            details_panel :=
              update_content
                (''Error loading '' @ object_type @ '' in namespace: ''
                   @ fmt_opt (current_namespace s))
                (details_panel s)\<rparr>,
          deferred r))"




text \<open>The tail of the \<open>load_objects\<close> worker started by a type selection.\<close>

definition load_objects ::
  "string \<Rightarrow> k8s_error + string list \<Rightarrow> ktree_app \<Rightarrow> ktree_app \<times> effect list" where
  "load_objects item res s =
     (case res of
        Inr objects \<Rightarrow> on_objects_loaded_from_selection item objects s
      | Inl e \<Rightarrow> on_objects_error_from_selection item s)"

definition on_browser_column_selected ::
  "selected \<Rightarrow> ktree_app \<Rightarrow> ktree_app \<times> effect list" where
  "on_browser_column_selected message s =
     (let column_id = sel_column message; item = sel_item message in
      if \<not> k8s s then (s, [])
      else if column_id = ''col-ns'' then
        (let s1 = update_header (s\<lparr>current_namespace := Some item\<rparr>);
             s2 = s1\<lparr>col_types := set_loading True (col_types s1),
                     details_panel :=
                       update_content
                         (''Loading object types for namespace: '' @ item @ ''...'')
                         (details_panel s1)\<rparr>;
             r = set_items [] (col_objects s2);
             s3 = s2\<lparr>col_objects := fst r, current_object_type := None,
                     describe_content := None, current_view := ''describe'',
                     details_panel := update_title False (details_panel s2)\<rparr>
         in (s3, deferred r @ [RunWorker (LoadObjectTypes item)]))
      else if column_id = ''col-types'' then
        (if \<not> truthy (current_namespace s) then (s, [])
         else
           (let s1 = s\<lparr>current_object_type := Some item, describe_content := None,
                       current_view := ''describe''\<rparr>;
                s2 = s1\<lparr>details_panel :=
                          update_content
                            (''Loading '' @ item @ '' in namespace: ''
                               @ fmt_opt (current_namespace s1) @ ''...'')
                            (update_title (item = ''Pods'') (details_panel s1)),
                        col_objects := set_loading True (col_objects s1)\<rparr>
            in (s2, [RunWorker (LoadObjects item)])))
      else if column_id = ''col-objects'' then
        (if \<not> truthy (current_namespace s) \<or> \<not> truthy (current_object_type s) then (s, [])
         else
           (let object_type = fmt_opt (current_object_type s);
                s1 = s\<lparr>current_pod_name :=
                          (if object_type = ''Pods'' then Some item else None)\<rparr>;
                s2 = s1\<lparr>details_panel :=
                          update_content
                            (''Loading details for '' @ object_type @ ''/'' @ item @ ''...'')
                            (update_title (object_type = ''Pods'') (details_panel s1))\<rparr>
            in (s2, [RunWorker (LoadDetails object_type item)])))
      else (s, []))"

definition action_refresh :: "ktree_app \<Rightarrow> ktree_app \<times> effect list" where
  "action_refresh s =
     (if \<not> k8s s then (s, [])
      else if truthy (current_namespace s) \<and> truthy (current_object_type s)
      then (s\<lparr>col_objects := set_loading True (col_objects s)\<rparr>, [RunWorker RefreshObjects])
      else if truthy (current_namespace s)
      then (s\<lparr>col_types := set_loading True (col_types s)\<rparr>, [RunWorker RefreshObjectTypes])
      else (s\<lparr>col_ns := set_loading True (col_ns s)\<rparr>, [RunWorker RefreshNamespaces]))"

definition on_objects_refreshed :: "string list \<Rightarrow> ktree_app \<Rightarrow> ktree_app \<times> effect list" where
  "on_objects_refreshed objects s =
     (let r = set_items objects (col_objects s)
      in (s\<lparr>col_objects := fst r\<rparr>, deferred r))"

definition on_object_types_refreshed ::
  "string list \<Rightarrow> ktree_app \<Rightarrow> ktree_app \<times> effect list" where
  "on_object_types_refreshed object_types s =
     (let r = set_items object_types (col_types s)
      in (s\<lparr>col_types := fst r\<rparr>, deferred r))"

definition on_namespaces_refreshed ::
  "string list \<Rightarrow> ktree_app \<Rightarrow> ktree_app \<times> effect list" where
  "on_namespaces_refreshed namespaces s =
     (let r = set_items namespaces (col_ns s)
      in (s\<lparr>col_ns := fst r\<rparr>, deferred r))"

section \<open>K8sManager (k8s_manager.py)\<close>

text \<open>
  The manager holds seven API clients, each of which may be missing (\<open>None\<close>).  A successful
  \<open>_load_config\<close> creates all of them.
\<close>

record k8s_manager =
  core_v1 :: bool
  apps_v1 :: bool
  batch_v1 :: bool
  networking_v1 :: bool
  rbac_authorization_v1 :: bool
  custom_objects :: bool
  apiextensions_v1 :: bool

definition load_config :: "bool \<Rightarrow> k8s_error + k8s_manager" where
  "load_config kubeconfig_ok =
     (if kubeconfig_ok
      then Inr \<lparr>core_v1 = True, apps_v1 = True, batch_v1 = True, networking_v1 = True,
                rbac_authorization_v1 = True, custom_objects = True,
                apiextensions_v1 = True\<rparr>
      else Inl K8sManagerError)"

text \<open>
  What the cluster answers.  A custom resource definition as the code reads it: \<open>crd.spec\<close>,
  \<open>spec.names\<close>, \<open>names.kind\<close> may each be missing; \<open>spec_versions\<close> is empty when the
  attribute is absent or empty; \<open>spec_version\<close> is the legacy single version, when the
  attribute exists.
\<close>

record crd_version =
  version_name :: string
  served :: bool

record crd_names =
  names_kind :: "string option"
  names_plural :: string

record crd_spec =
  spec_group :: string
  spec_names :: "crd_names option"
  spec_versions :: "crd_version list"
  spec_version :: "string option"

record crd =
  crd_spec :: "crd_spec option"

datatype api_exception = ApiException | OtherException

text \<open>
  The API calls, each giving an exception or a result.  A custom-object listing gives
  \<open>Some names\<close> when the result is a dict with \<open>"items"\<close> (a missing name reads as the empty
  string) and \<open>None\<close> otherwise; a built-in listing gives \<open>Some names\<close> when the result has
  \<open>items\<close>.
\<close>

record cluster =
  list_custom_resource_definition :: "api_exception + crd list"
  list_namespaced_custom_object ::
    "string \<Rightarrow> string \<Rightarrow> string \<Rightarrow> string \<Rightarrow> api_exception + string list option"
  list_builtin :: "string \<Rightarrow> string \<Rightarrow> api_exception + string list option"

definition standard_types :: "string list" where
  "standard_types =
     [''Pods'', ''Services'', ''Deployments'', ''ReplicaSets'', ''StatefulSets'',
      ''DaemonSets'', ''Jobs'', ''CronJobs'', ''ConfigMaps'', ''Secrets'',
      ''PersistentVolumes'', ''PersistentVolumeClaims'', ''Ingresses'', ''ServiceAccounts'',
      ''Roles'', ''RoleBindings'', ''ClusterRoles'', ''ClusterRoleBindings'']"

text \<open>\<open>crd.spec and crd.spec.names and crd.spec.names.kind\<close>: the kind, when all three are set.\<close>

definition crd_kind :: "crd \<Rightarrow> string option" where
  "crd_kind c =
     (case crd_spec c of
        None \<Rightarrow> None
      | Some sp \<Rightarrow>
          (case spec_names sp of
             None \<Rightarrow> None
           | Some nm \<Rightarrow> if truthy (names_kind nm) then names_kind nm else None))"

fun collect_kinds :: "crd list \<Rightarrow> string list" where
  "collect_kinds [] = []"
| "collect_kinds (c # rest) =
     (case crd_kind c of
        Some k \<Rightarrow> k # collect_kinds rest
      | None \<Rightarrow> collect_kinds rest)"

definition get_object_types :: "k8s_manager \<Rightarrow> cluster \<Rightarrow> string list" where
  "get_object_types m cl =
     (let crd_types =
            (if apiextensions_v1 m
             then (case list_custom_resource_definition cl of
                     Inr crds \<Rightarrow> collect_kinds crds
                   | Inl e \<Rightarrow> [])
             else [])
      in standard_types @ sort crd_types)"

text \<open>
  \<open>type_mapping\<close> of \<open>get_objects\<close>, after the \<open>None\<close> entries are removed: kind, whether the
  client object is there, and the method name.
\<close>

definition type_mapping :: "k8s_manager \<Rightarrow> (string \<times> bool \<times> string) list" where
  "type_mapping m =
     [(''Pods'', core_v1 m, ''list_namespaced_pod''),
      (''Services'', core_v1 m, ''list_namespaced_service''),
      (''ConfigMaps'', core_v1 m, ''list_namespaced_config_map''),
      (''Secrets'', core_v1 m, ''list_namespaced_secret''),
      (''ServiceAccounts'', core_v1 m, ''list_namespaced_service_account''),
      (''PersistentVolumeClaims'', core_v1 m, ''list_namespaced_persistent_volume_claim''),
      (''Deployments'', apps_v1 m, ''list_namespaced_deployment''),
      (''ReplicaSets'', apps_v1 m, ''list_namespaced_replica_set''),
      (''StatefulSets'', apps_v1 m, ''list_namespaced_stateful_set''),
      (''DaemonSets'', apps_v1 m, ''list_namespaced_daemon_set'')]
     @ (if batch_v1 m
        then [(''Jobs'', True, ''list_namespaced_job''),
              (''CronJobs'', True, ''list_namespaced_cron_job'')]
        else [])
     @ (if networking_v1 m then [(''Ingresses'', True, ''list_namespaced_ingress'')] else [])
     @ (if rbac_authorization_v1 m
        then [(''Roles'', True, ''list_namespaced_role''),
              (''RoleBindings'', True, ''list_namespaced_role_binding'')]
        else [])"

text \<open>\<open>sorted([name for name in object_names if name])\<close>\<close>

definition sorted_names :: "string list \<Rightarrow> string list" where
  "sorted_names object_names = sort (filter (\<lambda>name. name \<noteq> []) object_names)"

text \<open>
  The loop over the versions of a matching definition: the first served version whose
  listing has items decides; a listing that raises is skipped; otherwise the empty list.
\<close>

fun try_versions ::
  "cluster \<Rightarrow> string \<Rightarrow> string \<Rightarrow> string \<Rightarrow> crd_version list \<Rightarrow> string list" where
  "try_versions cl grp namespace plural [] = []"
| "try_versions cl grp namespace plural (v # vs) =
     (if served v
      then (case list_namespaced_custom_object cl grp (version_name v) namespace plural of
              Inr (Some object_names) \<Rightarrow> sorted_names object_names
            | Inr None \<Rightarrow> try_versions cl grp namespace plural vs
            | Inl e \<Rightarrow> try_versions cl grp namespace plural vs)
      else try_versions cl grp namespace plural vs)"

definition crd_matches :: "crd \<Rightarrow> string \<Rightarrow> bool" where
  "crd_matches c object_type =
     (case crd_spec c of
        None \<Rightarrow> False
      | Some sp \<Rightarrow>
          (case spec_names sp of
             None \<Rightarrow> False
           | Some nm \<Rightarrow> names_kind nm = Some object_type))"

text \<open>The body run for the first definition whose kind is the requested one.\<close>

definition list_custom :: "cluster \<Rightarrow> string \<Rightarrow> crd_spec \<Rightarrow> crd_names \<Rightarrow> string list" where
  "list_custom cl namespace sp nm =
     (if spec_versions sp = [] \<and> spec_version sp \<noteq> None
      then (case list_namespaced_custom_object cl (spec_group sp) (fmt_opt (spec_version sp))
                   namespace (names_plural nm) of
              Inr (Some object_names) \<Rightarrow> sorted_names object_names
            | Inr None \<Rightarrow> []
            | Inl e \<Rightarrow> [])
      else if spec_versions sp \<noteq> []
      then try_versions cl (spec_group sp) namespace (names_plural nm) (spec_versions sp)
      else [])"

fun scan_crds :: "cluster \<Rightarrow> string \<Rightarrow> string \<Rightarrow> crd list \<Rightarrow> string list" where
  "scan_crds cl namespace object_type [] = []"
| "scan_crds cl namespace object_type (c # rest) =
     (case crd_spec c of
        None \<Rightarrow> scan_crds cl namespace object_type rest
      | Some sp \<Rightarrow>
          (case spec_names sp of
             None \<Rightarrow> scan_crds cl namespace object_type rest
           | Some nm \<Rightarrow>
               if names_kind nm = Some object_type then list_custom cl namespace sp nm
               else scan_crds cl namespace object_type rest))"

definition get_objects ::
  "k8s_manager \<Rightarrow> cluster \<Rightarrow> string \<Rightarrow> string \<Rightarrow> k8s_error + string list" where
  "get_objects m cl namespace object_type =
     (if \<not> core_v1 m then Inl K8sManagerError
      else
        (case map_of (type_mapping m) object_type of
           None \<Rightarrow>
             (if custom_objects m \<and> apiextensions_v1 m
              then (case list_custom_resource_definition cl of
                      Inr crds \<Rightarrow> Inr (scan_crds cl namespace object_type crds)
                    | Inl e \<Rightarrow> Inr [])
              else Inr [])
         | Some (api_client, method_name) \<Rightarrow>
             (if \<not> api_client then Inl K8sManagerError
              else (case list_builtin cl method_name namespace of
                      Inr (Some object_names) \<Rightarrow> Inr (sort object_names)
                    | Inr None \<Rightarrow> Inr []
                    | Inl e \<Rightarrow> Inl K8sManagerError))))"

section \<open>Traces used below\<close>

text \<open>
  A \<open>Selected\<close> message, if one was posted, reaching the application's handler.
\<close>

definition deliver :: "selected option \<Rightarrow> ktree_app \<Rightarrow> ktree_app \<times> effect list" where
  "deliver msg s =
     (case msg of
        None \<Rightarrow> (s, [])
      | Some message \<Rightarrow> on_browser_column_selected message s)"

text \<open>Selecting item \<open>ns\<close> in the namespace panel.\<close>

abbreviation select_ns :: "string \<Rightarrow> ktree_app \<Rightarrow> ktree_app \<times> effect list" where
  "select_ns ns s \<equiv> on_browser_column_selected (Selected ''col-ns'' ns) s"

text \<open>Whether the details panel currently filters what it shows.\<close>

definition details_filtering :: "details_widget \<Rightarrow> bool" where
  "details_filtering d = (details_search_active d \<and> details_filter_term d \<noteq> [])"

text \<open>The application once the cluster client is connected.\<close>

definition connected_app :: ktree_app where
  "connected_app = (new_app None None)\<lparr>k8s := True\<rparr>"

text \<open>
  Namespace \<open>ns1\<close> is selected, then \<open>ns2\<close>; the type list fetched for \<open>ns2\<close> arrives and
  cascades; then the type list fetched for \<open>ns1\<close> arrives and cascades.
\<close>

definition late_s2 :: ktree_app where
  "late_s2 =
     fst (on_browser_column_selected (Selected ''col-ns'' ''ns2'')
           (fst (on_browser_column_selected (Selected ''col-ns'' ''ns1'') connected_app)))"

definition late_s3 :: ktree_app where
  "late_s3 = fst (on_object_types_loaded ''ns2'' [''Pods'', ''Services''] late_s2)"

definition late_s4 :: ktree_app where
  "late_s4 = fst (deliver (post_selection (col_types late_s3)) late_s3)"

definition late_s5 :: ktree_app where
  "late_s5 = fst (on_object_types_loaded ''ns1'' [''Jobs''] late_s4)"

definition late_s6 :: ktree_app where
  "late_s6 = fst (deliver (post_selection (col_types late_s5)) late_s5)"

text \<open>
  Namespace \<open>ns0\<close>, kind \<open>Pods\<close> and object \<open>p1\<close> are selected in turn.
\<close>

definition pod_selected :: ktree_app where
  "pod_selected =
     fst (on_browser_column_selected (Selected ''col-objects'' ''p1'')
       (fst (on_browser_column_selected (Selected ''col-types'' ''Pods'')
         (fst (on_browser_column_selected (Selected ''col-ns'' ''ns0'') connected_app)))))"

text \<open>
  The Object panel holds \<open>a\<close> and \<open>b\<close> with the cursor moved to \<open>b\<close>; then a refresh is
  requested and its fetch brings the same two objects.
\<close>

definition cursor_on_b :: ktree_app where
  "cursor_on_b =
     (let s = fst (on_objects_loaded_from_selection ''Pods'' [''a'', ''b'']
                (fst (on_browser_column_selected (Selected ''col-types'' ''Pods'')
                  (fst (on_browser_column_selected (Selected ''col-ns'' ''ns0'')
                     connected_app)))))
      in s\<lparr>col_objects :=
             (col_objects s)\<lparr>col_options := set_highlighted 1 (col_options (col_objects s))\<rparr>\<rparr>)"

definition refreshed :: ktree_app where
  "refreshed = fst (on_objects_refreshed [''a'', ''b''] (fst (action_refresh cursor_on_b)))"

text \<open>
  A manager built by a successful \<open>_load_config\<close>, and a cluster with two custom resource
  definitions (\<open>Widget\<close>, with one served version, and \<open>Alpha\<close>) and one definition without a
  spec.
\<close>

definition sample_manager :: k8s_manager where
  "sample_manager =
     \<lparr>core_v1 = True, apps_v1 = True, batch_v1 = True, networking_v1 = True,
      rbac_authorization_v1 = True, custom_objects = True, apiextensions_v1 = True\<rparr>"

definition sample_crds :: "crd list" where
  "sample_crds =
     [\<lparr>crd_spec = Some \<lparr>spec_group = ''example.com'',
                         spec_names = Some \<lparr>names_kind = Some ''Widget'',
                                             names_plural = ''widgets''\<rparr>,
                         spec_versions = [\<lparr>version_name = ''v1'', served = True\<rparr>],
                         spec_version = None\<rparr>\<rparr>,
      \<lparr>crd_spec = None\<rparr>,
      \<lparr>crd_spec = Some \<lparr>spec_group = ''example.com'',
                         spec_names = Some \<lparr>names_kind = Some ''Alpha'',
                                             names_plural = ''alphas''\<rparr>,
                         spec_versions = [],
                         spec_version = None\<rparr>\<rparr>]"

definition sample_cluster :: cluster where
  "sample_cluster =
     \<lparr>list_custom_resource_definition = Inr sample_crds,
      list_namespaced_custom_object = (\<lambda>grp ver ns plural. Inr (Some [''w2'', [], ''w1''])),
      list_builtin = (\<lambda>method_name ns. Inr (Some [''pod-2'', ''pod-1'']))\<rparr>"

definition failing_cluster :: cluster where
  "failing_cluster =
     \<lparr>list_custom_resource_definition = Inl ApiException,
      list_namespaced_custom_object = (\<lambda>grp ver ns plural. Inl ApiException),
      list_builtin = (\<lambda>method_name ns. Inl ApiException)\<rparr>"

section \<open>Properties of the column\<close>

lemma lower_char_idem: "lower_char (lower_char c) = lower_char c"
  by (simp add: lower_char_def split: option.splits if_splits)

lemma lower_idem: "lower (lower s) = lower s"
  by (simp add: lower_def lower_char_idem)

lemma lower_Nil_iff: "lower s = [] \<longleftrightarrow> s = []"
  by (simp add: lower_def)

lemma lower_Nil: "lower [] = []"
  by (simp add: lower_def)

lemma add_each_options: "add_each xs ol = ol\<lparr>options := options ol @ xs\<rparr>"
  by (induction xs arbitrary: ol) (simp_all add: add_option_def)

lemma highlighted_add_each: "highlighted (add_each xs ol) = highlighted ol"
  by (simp add: add_each_options)

lemma disabled_add_each: "disabled (add_each xs ol) = disabled ol"
  by (simp add: add_each_options)

lemma col_inv_new: "col_inv (new_column i)"
  by (simp add: col_inv_def new_column_def visible_spec_def filter_active_def lower_def)

lemma update_list_fields:
  "items (update_list c) = items c"
  "filtered_items (update_list c) = filtered_items c"
  "is_filtered (update_list c) = is_filtered c"
  "filter_term (update_list c) = filter_term c"
  "highlighted (col_options (update_list c)) = (if filtered_items c = [] then None else Some 0)"
  by (simp_all add: update_list_def Let_def clear_options_def add_option_def)

lemma set_items_fields:
  "items (fst (set_items its c)) = its"
  "is_filtered (fst (set_items its c)) = is_filtered c"
  "filter_term (fst (set_items its c)) = filter_term c"
  "col_id (fst (set_items its c)) = col_id c"
  "is_loading (fst (set_items its c)) = False"
  "filtered_items (fst (set_items its c)) =
     (if filter_active c then matching (filter_term c) its else its)"
  by (simp_all add: set_items_def Let_def filter_active_def)

lemma matching_Nil: "matching t [] = []"
  by (simp add: matching_def)

lemma matching_nonempty: "matching t its \<noteq> [] \<Longrightarrow> its \<noteq> []"
  by (auto simp add: matching_def)

lemma set_items_highlighted:
  "highlighted (col_options (fst (set_items its c))) =
     (if filtered_items (fst (set_items its c)) = [] then None else Some 0)"
  by (auto simp add: set_items_def Let_def clear_options_def add_option_def
        highlighted_add_each disabled_add_each matching_def)

lemma set_items_disabled:
  "disabled (col_options (fst (set_items its c))) = (filtered_items (fst (set_items its c)) = [])"
  by (auto simp add: set_items_def Let_def clear_options_def add_option_def disabled_add_each)

lemma set_items_options:
  "options (col_options (fst (set_items its c))) =
     (if filtered_items (fst (set_items its c)) = [] then [''No items'']
      else filtered_items (fst (set_items its c)))"
  by (auto simp add: set_items_def Let_def clear_options_def add_option_def add_each_options)

lemma set_items_scheduled:
  "snd (set_items its c) = (filtered_items (fst (set_items its c)) \<noteq> [])"
  by (auto simp add: set_items_def Let_def clear_options_def add_option_def disabled_add_each
        matching_def)

lemma col_inv_set_items: "col_inv c \<Longrightarrow> col_inv (fst (set_items its c))"
  unfolding col_inv_def
  by (simp add: set_items_fields set_items_highlighted visible_spec_def filter_active_def
        matching_def)

lemma col_inv_on_input_submitted: "col_inv c \<Longrightarrow> col_inv (on_input_submitted own v c)"
  unfolding col_inv_def
  by (auto simp add: on_input_submitted_def Let_def update_list_fields visible_spec_def
        filter_active_def matching_def lower_idem lower_Nil_iff lower_Nil)

lemma col_inv_toggle: "col_inv c \<Longrightarrow> col_inv (action_toggle_search c)"
  unfolding col_inv_def
  by (auto simp add: action_toggle_search_def update_list_fields visible_spec_def
        filter_active_def)

lemma col_inv_on_key: "col_inv c \<Longrightarrow> col_inv (on_key k c)"
  unfolding col_inv_def
  by (simp add: on_key_def update_list_fields visible_spec_def filter_active_def lower_def)

lemma col_inv_apply_op: "col_inv c \<Longrightarrow> col_inv (apply_op c op)"
  by (cases op)
     (simp_all add: col_inv_set_items col_inv_on_input_submitted col_inv_toggle col_inv_on_key)

lemma col_inv_run_ops: "col_inv c \<Longrightarrow> col_inv (run_ops ops c)"
  unfolding run_ops_def
  by (induction ops arbitrary: c) (simp_all add: col_inv_apply_op)

lemma col_inv_cursor_ok: "col_inv c \<Longrightarrow> cursor_ok c"
  by (auto simp add: col_inv_def cursor_ok_def split: if_splits)

lemma subseq_visible_spec: "subseq (visible_spec c) (items c)"
  by (simp add: visible_spec_def)

lemmas column_eval =
  set_items_def set_loading_def new_column_def matching_def lower_def lower_char_def
  clear_options_def add_option_def sublist_code Let_def

text \<open>
  C2.  Start from a fresh column and run any sequence of \<open>set_items\<close> calls and filter
  operations (submitting a search term, toggling the search, pressing a key).  Then
  \<open>filtered_items\<close> is exactly the items of \<open>items\<close>, in their order, that contain the filter
  term when compared in lower case, or all of \<open>items\<close> when no filter is active; it is a
  subsequence of \<open>items\<close>; the highlighted index lies inside \<open>filtered_items\<close>, and is absent
  exactly when \<open>filtered_items\<close> is empty; and a further \<open>set_items new\<close> stores \<open>new\<close>, keeps
  the filter and shows the filtered view of \<open>new\<close>.
\<close>

theorem visible_items_invariant:
  "filtered_items (run_ops ops (new_column i)) = visible_spec (run_ops ops (new_column i))
   \<and> subseq (filtered_items (run_ops ops (new_column i))) (items (run_ops ops (new_column i)))
   \<and> cursor_ok (run_ops ops (new_column i))
   \<and> items (fst (set_items new (run_ops ops (new_column i)))) = new
   \<and> filter_term (fst (set_items new (run_ops ops (new_column i))))
       = filter_term (run_ops ops (new_column i))
   \<and> filter_active (fst (set_items new (run_ops ops (new_column i))))
       = filter_active (run_ops ops (new_column i))
   \<and> filtered_items (fst (set_items new (run_ops ops (new_column i))))
       = visible_spec (fst (set_items new (run_ops ops (new_column i))))"
proof -
  define c where "c = run_ops ops (new_column i)"
  have inv: "col_inv c"
    unfolding c_def by (rule col_inv_run_ops) (rule col_inv_new)
  have inv': "col_inv (fst (set_items new c))"
    using inv by (rule col_inv_set_items)
  have vis: "filtered_items c = visible_spec c"
    using inv by (simp add: col_inv_def)
  have sub: "subseq (filtered_items c) (items c)"
    unfolding vis by (rule subseq_visible_spec)
  have cur: "cursor_ok c"
    using inv by (rule col_inv_cursor_ok)
  have vis': "filtered_items (fst (set_items new c)) = visible_spec (fst (set_items new c))"
    using inv' by (simp add: col_inv_def)
  have act: "filter_active (fst (set_items new c)) = filter_active c"
    by (simp add: filter_active_def set_items_fields)
  show ?thesis
    unfolding c_def [symmetric]
    using vis sub cur vis' act by (simp add: set_items_fields)
qed

text \<open>
  The example of the specification: items \<open>a1, a2, b1\<close> filtered by \<open>A\<close> show \<open>a1, a2\<close>;
  after \<open>set_items [a3, b2]\<close> the panel shows \<open>a3\<close>, with the cursor on it.
\<close>

theorem visible_items_invariant_witness:
  "filtered_items
     (run_ops [SetItems [''a1'', ''a2'', ''b1''], ToggleSearch, InputSubmitted True ''A'']
        (new_column ''col-ns'')) = [''a1'', ''a2'']
   \<and> visible_spec
       (run_ops [SetItems [''a1'', ''a2'', ''b1''], ToggleSearch, InputSubmitted True ''A'']
          (new_column ''col-ns'')) = [''a1'', ''a2'']
   \<and> cursor_ok
       (run_ops [SetItems [''a1'', ''a2'', ''b1''], ToggleSearch, InputSubmitted True ''A'']
          (new_column ''col-ns''))
   \<and> filtered_items
       (fst (set_items [''a3'', ''b2'']
          (run_ops [SetItems [''a1'', ''a2'', ''b1''], ToggleSearch, InputSubmitted True ''A'']
             (new_column ''col-ns'')))) = [''a3'']
   \<and> highlighted (col_options
       (fst (set_items [''a3'', ''b2'']
          (run_ops [SetItems [''a1'', ''a2'', ''b1''], ToggleSearch, InputSubmitted True ''A'']
             (new_column ''col-ns''))))) = Some 0"
  using visible_items_invariant
          [of "[SetItems [''a1'', ''a2'', ''b1''], ToggleSearch, InputSubmitted True ''A'']"
              "''col-ns''" "[''a3'', ''b2'']"]
  by (simp add: run_ops_def on_input_submitted_def action_toggle_search_def update_list_def
        column_eval)

text \<open>
  C4, as the code has it.  Whenever \<open>set_items\<close> leaves \<open>filtered_items\<close> non-empty it
  schedules \<open>post_selection\<close>, and a callback that fires at once posts the first visible
  item; when it leaves \<open>filtered_items\<close> empty nothing is scheduled.  A callback that fires
  later reads the column as it is then: it posts nothing once the column has been put into
  the loading state or emptied, and whatever it posts is the first item visible at that
  moment.  Exactly when the column then has a visible item, is enabled and has a highlight
  (on whichever row), the callback posts the first visible item; in every other case it
  posts nothing.  The callback does not compare the column's content with what it was when
  the callback was scheduled.
\<close>

theorem auto_cascade_on_population:
  "(filtered_items (fst (set_items its c)) \<noteq> [] \<longrightarrow>
      snd (set_items its c)
      \<and> post_selection (fst (set_items its c))
          = Some (Selected (col_id c) (filtered_items (fst (set_items its c)) ! 0)))
   \<and> (filtered_items (fst (set_items its c)) = [] \<longrightarrow> \<not> snd (set_items its c))
   \<and> post_selection (set_loading True c') = None
   \<and> post_selection (fst (set_items [] c')) = None
   \<and> (\<forall>m. post_selection c' = Some m \<longrightarrow>
         filtered_items c' \<noteq> [] \<and> m = Selected (col_id c') (filtered_items c' ! 0))
   \<and> post_selection c'
       = (if filtered_items c' \<noteq> [] \<and> \<not> disabled (col_options c')
             \<and> highlighted (col_options c') \<noteq> None
          then Some (Selected (col_id c') (filtered_items c' ! 0))
          else None)"
proof -
  have a: "filtered_items (fst (set_items its c)) \<noteq> [] \<Longrightarrow>
             post_selection (fst (set_items its c))
               = Some (Selected (col_id c) (filtered_items (fst (set_items its c)) ! 0))"
    by (cases "filtered_items (fst (set_items its c))")
       (simp_all add: post_selection_def set_items_highlighted set_items_disabled
          set_items_fields(4))
  have b: "post_selection (set_loading True c') = None"
    by (simp add: post_selection_def set_loading_def Let_def clear_options_def add_option_def)
  have c: "post_selection (fst (set_items [] c')) = None"
    by (simp add: post_selection_def set_items_fields matching_Nil)
  have d: "\<forall>m. post_selection c' = Some m \<longrightarrow>
             filtered_items c' \<noteq> [] \<and> m = Selected (col_id c') (filtered_items c' ! 0)"
    by (cases "filtered_items c'") (auto simp add: post_selection_def split: if_splits)
  have e: "post_selection c'
             = (if filtered_items c' \<noteq> [] \<and> \<not> disabled (col_options c')
                   \<and> highlighted (col_options c') \<noteq> None
                then Some (Selected (col_id c') (filtered_items c' ! 0))
                else None)"
    by (cases "filtered_items c'") (simp_all add: post_selection_def)
  show ?thesis
    using a b c d e by (simp add: set_items_scheduled)
qed

theorem auto_cascade_on_population_witness:
  "filtered_items (fst (set_items [''Pods'', ''Services''] (new_column ''col-types''))) \<noteq> []
   \<and> snd (set_items [''Pods'', ''Services''] (new_column ''col-types''))
   \<and> post_selection (fst (set_items [''Pods'', ''Services''] (new_column ''col-types'')))
       = Some (Selected ''col-types'' ''Pods'')
   \<and> filtered_items (fst (set_items [] (new_column ''col-types''))) = []
   \<and> \<not> snd (set_items [] (new_column ''col-types''))
   \<and> post_selection
        (set_loading True (fst (set_items [''Pods'', ''Services''] (new_column ''col-types''))))
       = None
   \<and> highlighted (col_options
         ((fst (set_items [''Pods'', ''Services''] (new_column ''col-types'')))
            \<lparr>col_options :=
               (col_options (fst (set_items [''Pods'', ''Services''] (new_column ''col-types''))))
                 \<lparr>highlighted := Some 1\<rparr>\<rparr>)) = Some 1
   \<and> post_selection
        ((fst (set_items [''Pods'', ''Services''] (new_column ''col-types'')))
           \<lparr>col_options :=
              (col_options (fst (set_items [''Pods'', ''Services''] (new_column ''col-types''))))
                \<lparr>highlighted := Some 1\<rparr>\<rparr>)
       = Some (Selected ''col-types'' ''Pods'')
   \<and> post_selection
        ((fst (set_items [''Pods'', ''Services''] (new_column ''col-types'')))
           \<lparr>col_options :=
              (col_options (fst (set_items [''Pods'', ''Services''] (new_column ''col-types''))))
                \<lparr>highlighted := None\<rparr>\<rparr>)
       = None"
proof -
  have moved:
    "highlighted (col_options
       ((fst (set_items [''Pods'', ''Services''] (new_column ''col-types'')))
          \<lparr>col_options :=
             (col_options (fst (set_items [''Pods'', ''Services''] (new_column ''col-types''))))
               \<lparr>highlighted := Some 1\<rparr>\<rparr>)) = Some 1"
    by simp
  have fired:
    "post_selection
       ((fst (set_items [''Pods'', ''Services''] (new_column ''col-types'')))
          \<lparr>col_options :=
             (col_options (fst (set_items [''Pods'', ''Services''] (new_column ''col-types''))))
               \<lparr>highlighted := Some 1\<rparr>\<rparr>)
       = Some (Selected ''col-types'' ''Pods'')"
    using auto_cascade_on_population
        [of "[]" "new_column ''col-types''"
            "(fst (set_items [''Pods'', ''Services''] (new_column ''col-types'')))
               \<lparr>col_options :=
                  (col_options
                     (fst (set_items [''Pods'', ''Services''] (new_column ''col-types''))))
                    \<lparr>highlighted := Some 1\<rparr>\<rparr>",
         THEN conjunct2, THEN conjunct2, THEN conjunct2, THEN conjunct2, THEN conjunct2]
    by (simp add: column_eval)
  have silent:
    "post_selection
       ((fst (set_items [''Pods'', ''Services''] (new_column ''col-types'')))
          \<lparr>col_options :=
             (col_options (fst (set_items [''Pods'', ''Services''] (new_column ''col-types''))))
               \<lparr>highlighted := None\<rparr>\<rparr>)
       = None"
    using auto_cascade_on_population
        [of "[]" "new_column ''col-types''"
            "(fst (set_items [''Pods'', ''Services''] (new_column ''col-types'')))
               \<lparr>col_options :=
                  (col_options
                     (fst (set_items [''Pods'', ''Services''] (new_column ''col-types''))))
                    \<lparr>highlighted := None\<rparr>\<rparr>",
         THEN conjunct2, THEN conjunct2, THEN conjunct2, THEN conjunct2, THEN conjunct2]
    by simp
  have first:
    "filtered_items (fst (set_items [''Pods'', ''Services''] (new_column ''col-types''))) \<noteq> []
     \<and> snd (set_items [''Pods'', ''Services''] (new_column ''col-types''))
     \<and> post_selection (fst (set_items [''Pods'', ''Services''] (new_column ''col-types'')))
         = Some (Selected ''col-types'' ''Pods'')
     \<and> filtered_items (fst (set_items [] (new_column ''col-types''))) = []
     \<and> \<not> snd (set_items [] (new_column ''col-types''))
     \<and> post_selection
          (set_loading True (fst (set_items [''Pods'', ''Services''] (new_column ''col-types''))))
         = None"
    using auto_cascade_on_population
            [of "[''Pods'', ''Services'']" "new_column ''col-types''"
                "fst (set_items [''Pods'', ''Services''] (new_column ''col-types''))"]
          auto_cascade_on_population
            [of "[]" "new_column ''col-types''" "new_column ''col-types''"]
    by (simp add: post_selection_def column_eval)
  show ?thesis
    using first moved fired silent by blast
qed

text \<open>
  C4 as stated fails: \<open>set_items [a]\<close> schedules a callback; before it fires the column is
  repopulated with \<open>[b]\<close>; the late callback still posts a selection, of \<open>b\<close>.
\<close>

theorem late_callback_still_posts:
  "snd (set_items [''a''] (new_column ''col-objects''))
   \<and> items (fst (set_items [''b''] (fst (set_items [''a''] (new_column ''col-objects'')))))
       \<noteq> items (fst (set_items [''a''] (new_column ''col-objects'')))
   \<and> post_selection (fst (set_items [''b''] (fst (set_items [''a''] (new_column ''col-objects'')))))
       = Some (Selected ''col-objects'' ''b'')"
  by (simp add: post_selection_def column_eval)

text \<open>
  Neither option-list handler ever posts a placeholder row it was handed, and the highlight
  handler posts nothing while the list is disabled.
\<close>

lemma placeholder_not_posted:
  "placeholder p \<Longrightarrow> on_option_list_option_selected p c = None"
  "placeholder p \<Longrightarrow> on_option_list_option_highlighted (Some p) c = None"
  "disabled (col_options c) \<Longrightarrow> on_option_list_option_highlighted e c = None"
  by (simp_all add: on_option_list_option_selected_def on_option_list_option_highlighted_def)

text \<open>
  C8 at the failing input: the Object column is loading (its list is disabled and shows
  the loading row) when an option-selected event for \<open>pod-1\<close> reaches it; the handler posts
  \<open>Selected\<close> for \<open>pod-1\<close>, whereas the highlight handler posts nothing for the same event.
\<close>

theorem selected_while_loading:
  "is_loading (set_loading True (new_column ''col-objects''))
   \<and> disabled (col_options (set_loading True (new_column ''col-objects'')))
   \<and> on_option_list_option_selected ''pod-1'' (set_loading True (new_column ''col-objects''))
       = Some (Selected ''col-objects'' ''pod-1'')
   \<and> on_option_list_option_highlighted (Some ''pod-1'')
        (set_loading True (new_column ''col-objects'')) = None"
  by (simp add: on_option_list_option_selected_def on_option_list_option_highlighted_def
        placeholder_def column_eval)

section \<open>Properties of the application\<close>

lemma sublist_at_end: "sublist x (a @ x)"
  using sublist_appendI [of x a "[]"] by simp

lemma original_content_apply_filter:
  "original_content (apply_filter t d) = original_content d"
  by (simp add: apply_filter_def Let_def)

lemma original_content_update_content:
  "original_content (update_content content d) = content"
  by (simp add: update_content_def Let_def original_content_apply_filter)

lemma content_text_update_content:
  "\<not> details_filtering d \<Longrightarrow> content_text (update_content content d) = content"
  by (auto simp add: update_content_def Let_def details_filtering_def)

lemma set_items_Nil:
  "items (fst (set_items [] c)) = []"
  "filtered_items (fst (set_items [] c)) = []"
  "options (col_options (fst (set_items [] c))) = [''No items'']"
  "disabled (col_options (fst (set_items [] c)))"
  "highlighted (col_options (fst (set_items [] c))) = None"
  "snd (set_items [] c) = False"
  by (simp_all add: set_items_def Let_def matching_def clear_options_def add_option_def)

lemmas app_eval =
  on_browser_column_selected_def deferred_def update_header_def or_else_def
  update_content_def update_title_def connected_app_def new_app_def new_details_def

text \<open>
  C1, as the code has it.  The completion handlers for the type list and the object list
  make no comparison with the current selection.  Whatever namespace the type list was
  fetched for, \<open>_on_object_types_loaded\<close> stores the delivered list in the Type panel (shown
  through the panel's filter) and leaves \<open>current_namespace\<close> as it is; whatever namespace
  and kind the object list was fetched for, \<open>_on_objects_loaded\<close> stores the delivered list
  in the Object panel and changes nothing else.
\<close>

theorem completion_applies_result:
  "items (col_types (fst (on_object_types_loaded namespace object_types s))) = object_types
   \<and> filtered_items (col_types (fst (on_object_types_loaded namespace object_types s)))
       = (if filter_active (col_types s) then matching (filter_term (col_types s)) object_types
          else object_types)
   \<and> current_namespace (fst (on_object_types_loaded namespace object_types s))
       = current_namespace s
   \<and> items (col_objects (fst (on_objects_loaded namespace object_type objects s))) = objects
   \<and> fst (on_objects_loaded namespace object_type objects s)
       = s\<lparr>col_objects := fst (set_items objects (col_objects s))\<rparr>"
  by (simp add: on_object_types_loaded_def on_objects_loaded_def load_objects_for_type_def
        Let_def set_items_fields)

theorem completion_applies_result_witness:
  "current_namespace (fst (select_ns ''ns2'' connected_app)) = Some ''ns2''
   \<and> items (col_types
         (fst (on_object_types_loaded ''ns1'' [''Jobs''] (fst (select_ns ''ns2'' connected_app)))))
       = [''Jobs'']
   \<and> current_namespace
         (fst (on_object_types_loaded ''ns1'' [''Jobs''] (fst (select_ns ''ns2'' connected_app))))
       = Some ''ns2''
   \<and> items (col_objects
         (fst (on_objects_loaded ''ns1'' ''Pods'' [''p1'']
            (fst (select_ns ''ns2'' connected_app)))))
       = [''p1'']"
  using completion_applies_result
          [of "''ns1''" "[''Jobs'']" "fst (select_ns ''ns2'' connected_app)" "''Pods''"
              "[''p1'']"]
  by (simp add: app_eval column_eval)

text \<open>
  C1 as stated fails.  After \<open>ns1\<close> and then \<open>ns2\<close> were selected, the \<open>ns2\<close> type list
  arrives and cascades to \<open>Pods\<close>; the late \<open>ns1\<close> type list \<open>[Jobs]\<close> is then applied to the
  Type panel although the namespace is \<open>ns2\<close>, and its cascade makes \<open>Jobs\<close> the object type.
\<close>

theorem late_type_list_is_applied:
  "current_namespace late_s4 = Some ''ns2''
   \<and> current_object_type late_s4 = Some ''Pods''
   \<and> current_namespace late_s5 = Some ''ns2''
   \<and> items (col_types late_s5) = [''Jobs'']
   \<and> current_object_type late_s6 = Some ''Jobs''"
  by (simp add: late_s6_def late_s5_def late_s4_def late_s3_def late_s2_def deliver_def
        on_object_types_loaded_def load_objects_for_type_def post_selection_def
        app_eval column_eval)

text \<open>
  C3, as the code has it.  With the cluster client connected, a selection of \<open>ns\<close> in the
  namespace panel sets \<open>current_namespace\<close> to \<open>ns\<close>, clears \<open>current_object_type\<close> and
  \<open>describe_content\<close>, sets \<open>current_view\<close> to \<open>describe\<close>, and empties the Object panel (it
  shows the "No items" row); all of this is done when the handler returns, and the
  type-list fetch has only been started.  \<open>current_pod_name\<close> is not touched.
\<close>

theorem namespace_selected:
  assumes "k8s s"
  shows "current_namespace (fst (select_ns ns s)) = Some ns
   \<and> current_object_type (fst (select_ns ns s)) = None
   \<and> describe_content (fst (select_ns ns s)) = None
   \<and> current_view (fst (select_ns ns s)) = ''describe''
   \<and> items (col_objects (fst (select_ns ns s))) = []
   \<and> filtered_items (col_objects (fst (select_ns ns s))) = []
   \<and> options (col_options (col_objects (fst (select_ns ns s)))) = [''No items'']
   \<and> current_pod_name (fst (select_ns ns s)) = current_pod_name s
   \<and> snd (select_ns ns s) = [RunWorker (LoadObjectTypes ns)]"
  using assms
  by (simp add: on_browser_column_selected_def Let_def update_header_def deferred_def
        set_items_Nil)

theorem namespace_selected_witness:
  "k8s connected_app
   \<and> current_namespace (fst (select_ns ''ns1'' connected_app)) = Some ''ns1''
   \<and> current_object_type (fst (select_ns ''ns1'' connected_app)) = None
   \<and> options (col_options (col_objects (fst (select_ns ''ns1'' connected_app))))
       = [''No items'']
   \<and> snd (select_ns ''ns1'' connected_app) = [RunWorker (LoadObjectTypes ''ns1'')]"
proof -
  have h: "k8s connected_app"
    by (simp add: connected_app_def)
  show ?thesis
    using h namespace_selected [OF h, of "''ns1''"] by simp
qed

text \<open>
  C3 as stated fails: with pod \<open>p1\<close> selected, selecting namespace \<open>ns1\<close> leaves
  \<open>current_pod_name\<close> at \<open>p1\<close>.
\<close>

theorem pod_name_survives_namespace_change:
  "current_pod_name pod_selected = Some ''p1''
   \<and> current_pod_name (fst (select_ns ''ns1'' pod_selected)) = Some ''p1''"
  by (simp add: pod_selected_def app_eval column_eval)

lemma load_objects_empty:
  "load_objects object_type (Inr []) s = on_objects_loaded_from_selection object_type [] s"
  by (simp add: load_objects_def)

text \<open>
  C5.  When the object list fetched for a selected kind is empty, the details panel's body
  becomes \<open>No <kind> found in namespace: <current namespace>\<close>, which contains both the kind
  and the namespace (and is what the panel shows unless its own filter is on); the Object
  panel holds no items and shows the disabled "No items" row without a highlight; the
  handler starts no worker and schedules no selection, and a selection callback still
  pending on the Object panel posts nothing, so no describe fetch is started.
\<close>

theorem no_objects_of_kind:
  "original_content (details_panel (fst (on_objects_loaded_from_selection object_type [] s)))
     = ''No '' @ object_type @ '' found in namespace: '' @ fmt_opt (current_namespace s)
   \<and> sublist object_type
       (original_content (details_panel (fst (on_objects_loaded_from_selection object_type [] s))))
   \<and> sublist (fmt_opt (current_namespace s))
       (original_content (details_panel (fst (on_objects_loaded_from_selection object_type [] s))))
   \<and> (\<not> details_filtering (details_panel s) \<longrightarrow>
        content_text (details_panel (fst (on_objects_loaded_from_selection object_type [] s)))
          = ''No '' @ object_type @ '' found in namespace: '' @ fmt_opt (current_namespace s))
   \<and> items (col_objects (fst (on_objects_loaded_from_selection object_type [] s))) = []
   \<and> filtered_items (col_objects (fst (on_objects_loaded_from_selection object_type [] s))) = []
   \<and> options (col_options (col_objects (fst (on_objects_loaded_from_selection object_type [] s))))
       = [''No items'']
   \<and> disabled (col_options (col_objects (fst (on_objects_loaded_from_selection object_type [] s))))
   \<and> highlighted (col_options (col_objects (fst (on_objects_loaded_from_selection object_type [] s))))
       = None
   \<and> snd (on_objects_loaded_from_selection object_type [] s) = []
   \<and> post_selection (col_objects (fst (on_objects_loaded_from_selection object_type [] s)))
       = None"
proof -
  define msg where
    "msg = ''No '' @ object_type @ '' found in namespace: '' @ fmt_opt (current_namespace s)"
  define s' where "s' = fst (on_objects_loaded_from_selection object_type [] s)"
  have s': "s' = s\<lparr>col_objects := fst (set_items [] (col_objects s)),
                   details_panel := update_content msg (details_panel s)\<rparr>"
    by (simp add: s'_def on_objects_loaded_from_selection_def Let_def msg_def)
  have body: "original_content (details_panel s') = msg"
    by (simp add: s' original_content_update_content)
  have kind: "sublist object_type msg"
    unfolding msg_def by (rule sublist_appendI)
  have ns: "sublist (fmt_opt (current_namespace s)) msg"
    using sublist_at_end [of "fmt_opt (current_namespace s)"
            "''No '' @ object_type @ '' found in namespace: ''"]
    by (simp add: msg_def)
  have shown: "\<not> details_filtering (details_panel s) \<longrightarrow> content_text (details_panel s') = msg"
    by (simp add: s' content_text_update_content)
  have col: "col_objects s' = fst (set_items [] (col_objects s))"
    by (simp add: s')
  have eff: "snd (on_objects_loaded_from_selection object_type [] s) = []"
    by (simp add: on_objects_loaded_from_selection_def Let_def deferred_def set_items_Nil)
  have post: "post_selection (col_objects s') = None"
    by (simp add: col post_selection_def set_items_Nil)
  show ?thesis
    unfolding s'_def [symmetric] msg_def [symmetric]
    using body kind ns shown eff post by (simp add: col set_items_Nil)
qed

theorem no_objects_of_kind_witness:
  "\<not> details_filtering (details_panel (fst (select_ns ''ns2'' connected_app)))
   \<and> content_text (details_panel
         (fst (on_objects_loaded_from_selection ''Pods'' []
            (fst (select_ns ''ns2'' connected_app)))))
       = ''No Pods found in namespace: ns2''
   \<and> options (col_options (col_objects
         (fst (on_objects_loaded_from_selection ''Pods'' []
            (fst (select_ns ''ns2'' connected_app))))))
       = [''No items'']
   \<and> snd (on_objects_loaded_from_selection ''Pods'' []
          (fst (select_ns ''ns2'' connected_app))) = []"
proof -
  have ns: "current_namespace (fst (select_ns ''ns2'' connected_app)) = Some ''ns2''"
    and nf: "\<not> details_filtering (details_panel (fst (select_ns ''ns2'' connected_app)))"
    by (simp_all add: details_filtering_def app_eval column_eval)
  show ?thesis
    using nf ns no_objects_of_kind [of "''Pods''" "fst (select_ns ''ns2'' connected_app)"]
    by simp
qed



text \<open>
  C7, as the code has it.  With the cluster client connected, refresh starts exactly one
  fetch, for the deepest level that is selected: the object list when namespace and kind
  are both set (non-empty), else the type list when the namespace is set, else the
  namespace list.  When the fetched list arrives it replaces the panel's items; the
  panel's filter term and filter flag are kept and the new items are shown through the
  filter.  The cursor is put on the first visible item and a selection of that item is
  scheduled whenever anything is visible; otherwise there is no cursor and nothing is
  scheduled.
\<close>

theorem refresh_deepest_level:
  assumes "k8s s"
  shows "snd (action_refresh s)
     = [RunWorker (if truthy (current_namespace s) \<and> truthy (current_object_type s)
                   then RefreshObjects
                   else if truthy (current_namespace s) then RefreshObjectTypes
                   else RefreshNamespaces)]
   \<and> col_objects (fst (on_objects_refreshed new s)) = fst (set_items new (col_objects s))
   \<and> col_types (fst (on_object_types_refreshed new s)) = fst (set_items new (col_types s))
   \<and> col_ns (fst (on_namespaces_refreshed new s)) = fst (set_items new (col_ns s))
   \<and> snd (on_objects_refreshed new s)
       = (if filtered_items (fst (set_items new (col_objects s))) \<noteq> []
          then [CallLater (col_id (col_objects s))] else [])
   \<and> snd (on_object_types_refreshed new s)
       = (if filtered_items (fst (set_items new (col_types s))) \<noteq> []
          then [CallLater (col_id (col_types s))] else [])
   \<and> snd (on_namespaces_refreshed new s)
       = (if filtered_items (fst (set_items new (col_ns s))) \<noteq> []
          then [CallLater (col_id (col_ns s))] else [])
   \<and> items (fst (set_items new c)) = new
   \<and> filter_term (fst (set_items new c)) = filter_term c
   \<and> is_filtered (fst (set_items new c)) = is_filtered c
   \<and> filtered_items (fst (set_items new c))
       = (if filter_active c then matching (filter_term c) new else new)
   \<and> highlighted (col_options (fst (set_items new c)))
       = (if filtered_items (fst (set_items new c)) = [] then None else Some 0)"
proof -
  have r: "snd (action_refresh s)
     = [RunWorker (if truthy (current_namespace s) \<and> truthy (current_object_type s)
                   then RefreshObjects
                   else if truthy (current_namespace s) then RefreshObjectTypes
                   else RefreshNamespaces)]"
    using assms by (simp add: action_refresh_def)
  have cols:
    "col_objects (fst (on_objects_refreshed new s)) = fst (set_items new (col_objects s))"
    "col_types (fst (on_object_types_refreshed new s)) = fst (set_items new (col_types s))"
    "col_ns (fst (on_namespaces_refreshed new s)) = fst (set_items new (col_ns s))"
    by (simp_all add: on_objects_refreshed_def on_object_types_refreshed_def
          on_namespaces_refreshed_def Let_def)
  have effs:
    "snd (on_objects_refreshed new s)
       = (if filtered_items (fst (set_items new (col_objects s))) \<noteq> []
          then [CallLater (col_id (col_objects s))] else [])"
    "snd (on_object_types_refreshed new s)
       = (if filtered_items (fst (set_items new (col_types s))) \<noteq> []
          then [CallLater (col_id (col_types s))] else [])"
    "snd (on_namespaces_refreshed new s)
       = (if filtered_items (fst (set_items new (col_ns s))) \<noteq> []
          then [CallLater (col_id (col_ns s))] else [])"
    by (simp_all add: on_objects_refreshed_def on_object_types_refreshed_def
          on_namespaces_refreshed_def Let_def deferred_def set_items_scheduled
          set_items_fields(4))
  show ?thesis
    using r cols effs set_items_highlighted [of new c]
    by (simp add: set_items_fields)
qed

theorem refresh_deepest_level_witness:
  "k8s cursor_on_b
   \<and> snd (action_refresh cursor_on_b) = [RunWorker RefreshObjects]
   \<and> snd (action_refresh connected_app) = [RunWorker RefreshNamespaces]
   \<and> items (col_objects refreshed) = [''a'', ''b'']"
proof -
  have h: "k8s cursor_on_b" "k8s connected_app"
    and sel: "current_namespace cursor_on_b = Some ''ns0''"
      "current_object_type cursor_on_b = Some ''Pods''"
      "current_namespace connected_app = None"
    by (simp_all add: cursor_on_b_def on_objects_loaded_from_selection_def
          set_highlighted_def app_eval column_eval)
  show ?thesis
    using h sel refresh_deepest_level [OF h(1), of "[''a'', ''b'']" "new_column []"]
      refresh_deepest_level [OF h(2), of "[]" "new_column []"]
      refresh_deepest_level [OF h(1), of "[''a'', ''b'']" "col_objects (fst (action_refresh cursor_on_b))"]
    by (simp add: refreshed_def on_objects_refreshed_def Let_def set_items_fields)
qed

text \<open>
  C7 as stated fails on the cursor: the Object panel shows \<open>a, b\<close> with the cursor on \<open>b\<close>;
  after a refresh that brings \<open>a, b\<close> again, \<open>b\<close> is still present but the cursor is on \<open>a\<close>.
\<close>

theorem cursor_not_kept_on_refresh:
  "highlighted (col_options (col_objects cursor_on_b)) = Some 1
   \<and> filtered_items (col_objects cursor_on_b) ! 1 = ''b''
   \<and> ''b'' \<in> set (filtered_items (col_objects refreshed))
   \<and> highlighted (col_options (col_objects refreshed)) = Some 0
   \<and> filtered_items (col_objects refreshed) ! 0 = ''a''"
  by (simp add: refreshed_def cursor_on_b_def on_objects_loaded_from_selection_def
        on_objects_refreshed_def action_refresh_def set_highlighted_def app_eval column_eval)

section \<open>Properties of the manager\<close>

lemma load_config_clients:
  "load_config ok = Inr m \<Longrightarrow> core_v1 m \<and> custom_objects m \<and> apiextensions_v1 m"
  by (auto simp add: load_config_def split: if_splits)

lemma load_config_sample: "load_config True = Inr sample_manager"
  by (simp add: load_config_def sample_manager_def)

lemma scan_crds_no_match:
  "\<forall>c\<in>set crds. \<not> crd_matches c object_type \<Longrightarrow>
     scan_crds cl namespace object_type crds = []"
  by (induction crds) (auto simp add: crd_matches_def split: option.splits)

lemma set_collect_kinds:
  "set (collect_kinds crds) = {k. \<exists>c\<in>set crds. crd_kind c = Some k}"
  by (induction crds) (auto split: option.splits)

lemma length_standard_types: "length standard_types = 18"
  by (simp add: standard_types_def)

text \<open>
  C9.  Let the manager's core client be set, let \<open>object_type\<close> be none of the kinds in
  \<open>type_mapping\<close>, and let no custom resource definition listed by the cluster have this
  kind (in particular when listing the definitions fails).  Then \<open>get_objects\<close> returns the
  empty list for every namespace; it does not raise.
\<close>

theorem unsupported_kind_lists_empty:
  assumes "core_v1 m"
    and "object_type \<notin> fst ` set (type_mapping m)"
    and "\<forall>crds. list_custom_resource_definition cl = Inr crds \<longrightarrow>
           (\<forall>c\<in>set crds. \<not> crd_matches c object_type)"
  shows "get_objects m cl namespace object_type = Inr []"
proof -
  have unmapped: "map_of (type_mapping m) object_type = None"
    using assms(2) by (simp add: map_of_eq_None_iff)
  show ?thesis
  proof (cases "list_custom_resource_definition cl")
    case (Inl e)
    then show ?thesis
      using assms(1) unmapped by (simp add: get_objects_def)
  next
    case (Inr crds)
    then have "scan_crds cl namespace object_type crds = []"
      using assms(3) by (simp add: scan_crds_no_match)
    then show ?thesis
      using assms(1) unmapped Inr by (simp add: get_objects_def)
  qed
qed

theorem unsupported_kind_lists_empty_witness:
  "core_v1 sample_manager
   \<and> ''UnsupportedType'' \<notin> fst ` set (type_mapping sample_manager)
   \<and> list_custom_resource_definition sample_cluster = Inr sample_crds
   \<and> map crd_kind sample_crds = [Some ''Widget'', None, Some ''Alpha'']
   \<and> get_objects sample_manager sample_cluster ''default'' ''UnsupportedType'' = Inr []
   \<and> get_objects sample_manager failing_cluster ''default'' ''UnsupportedType'' = Inr []"
proof -
  have h1: "core_v1 sample_manager"
    by (simp add: sample_manager_def)
  have h2: "''UnsupportedType'' \<notin> fst ` set (type_mapping sample_manager)"
    by (simp add: type_mapping_def sample_manager_def)
  have h3: "\<forall>c\<in>set sample_crds. \<not> crd_matches c ''UnsupportedType''"
    by (simp add: sample_crds_def crd_matches_def)
  have h4: "\<forall>crds. list_custom_resource_definition sample_cluster = Inr crds \<longrightarrow>
              (\<forall>c\<in>set crds. \<not> crd_matches c ''UnsupportedType'')"
    using h3 by (simp add: sample_cluster_def)
  have h5: "\<forall>crds. list_custom_resource_definition failing_cluster = Inr crds \<longrightarrow>
              (\<forall>c\<in>set crds. \<not> crd_matches c ''UnsupportedType'')"
    by (simp add: failing_cluster_def)
  have h6: "list_custom_resource_definition sample_cluster = Inr sample_crds"
    by (simp add: sample_cluster_def)
  have h7: "map crd_kind sample_crds = [Some ''Widget'', None, Some ''Alpha'']"
    by (simp add: sample_crds_def crd_kind_def)
  show ?thesis
    using h1 h2 h6 h7 unsupported_kind_lists_empty [OF h1 h2 h4, of "''default''"]
      unsupported_kind_lists_empty [OF h1 h2 h5, of "''default''"]
    by simp
qed

text \<open>
  The same manager and cluster do list objects for a mapped kind and for a discovered
  custom kind.
\<close>

lemma supported_kinds_example:
  "get_objects sample_manager sample_cluster ''default'' ''Pods'' = Inr [''pod-1'', ''pod-2'']"
  "get_objects sample_manager sample_cluster ''default'' ''Widget'' = Inr [''w1'', ''w2'']"
  by code_simp+

text \<open>
  C10.  \<open>get_object_types\<close> is a total function to lists (nothing it calls can make it
  raise: the listing of custom resource definitions is the only call that may fail, and
  its failure is caught).  Its result starts with the 18 built-in kinds in their fixed
  order; what follows is sorted ascending and consists of exactly the kinds of the listed
  definitions; when the listing fails, or the extensions client is missing, the result is
  exactly the built-in list; so the result is never empty.
\<close>

theorem object_types_builtin_then_custom:
  "length standard_types = 18
   \<and> take 18 (get_object_types m cl) = standard_types
   \<and> sorted (drop 18 (get_object_types m cl))
   \<and> (\<forall>crds. apiextensions_v1 m \<and> list_custom_resource_definition cl = Inr crds \<longrightarrow>
         mset (drop 18 (get_object_types m cl)) = mset (collect_kinds crds))
   \<and> (\<forall>e. list_custom_resource_definition cl = Inl e \<longrightarrow>
         get_object_types m cl = standard_types)
   \<and> (\<not> apiextensions_v1 m \<longrightarrow> get_object_types m cl = standard_types)
   \<and> get_object_types m cl \<noteq> []"
proof -
  obtain crd_types where shape: "get_object_types m cl = standard_types @ sort crd_types"
    and found: "\<And>crds. apiextensions_v1 m \<Longrightarrow> list_custom_resource_definition cl = Inr crds
                  \<Longrightarrow> crd_types = collect_kinds crds"
    and failed: "\<And>e. list_custom_resource_definition cl = Inl e \<Longrightarrow> crd_types = []"
    and missing: "\<not> apiextensions_v1 m \<Longrightarrow> crd_types = []"
    by (cases "list_custom_resource_definition cl") (simp_all add: get_object_types_def)
  have tk: "take 18 (get_object_types m cl) = standard_types"
    by (simp add: shape length_standard_types)
  have dr: "drop 18 (get_object_types m cl) = sort crd_types"
    by (simp add: shape length_standard_types)
  have ne: "get_object_types m cl \<noteq> []"
    using length_standard_types by (auto simp add: shape)
  show ?thesis
    using tk ne found failed missing
    by (auto simp add: dr length_standard_types shape)
qed

theorem object_types_builtin_then_custom_witness:
  "apiextensions_v1 sample_manager
   \<and> list_custom_resource_definition sample_cluster = Inr sample_crds
   \<and> list_custom_resource_definition failing_cluster = Inl ApiException
   \<and> collect_kinds sample_crds = [''Widget'', ''Alpha'']
   \<and> get_object_types sample_manager sample_cluster = standard_types @ [''Alpha'', ''Widget'']
   \<and> get_object_types sample_manager failing_cluster = standard_types"
proof -
  have h: "apiextensions_v1 sample_manager"
    "list_custom_resource_definition sample_cluster = Inr sample_crds"
    "list_custom_resource_definition failing_cluster = Inl ApiException"
    by (simp_all add: sample_manager_def sample_cluster_def failing_cluster_def)
  have k: "collect_kinds sample_crds = [''Widget'', ''Alpha'']"
    by (simp add: sample_crds_def crd_kind_def)
  have srt: "sort [''Widget'', ''Alpha''] = [''Alpha'', ''Widget'']"
    by code_simp
  have ok: "get_object_types sample_manager sample_cluster = standard_types @ [''Alpha'', ''Widget'']"
    using h k srt by (simp add: get_object_types_def)
  show ?thesis
    using h k ok object_types_builtin_then_custom [of sample_manager failing_cluster]
      object_types_builtin_then_custom [of sample_manager sample_cluster]
    by simp
qed

end
